theory Spec2Isabelle
  imports Main
begin

section \<open>The dio command line client: pull and push\<close>

text \<open>
  A shallow embedding of the two commands of the client, \<open>pullCmd\<close> and \<open>pushCmd\<close>.
  Each command is a function from the command line (arguments and flags) and the state
  of the machine it runs on to an error or success, and the state it leaves behind.
  What the commands get from outside (the Go standard library, the remote server, the
  success or failure of each system call) is a field of the record \<open>env\<close>, so every
  theorem holds for every library function and every behaviour of server and disk.
\<close>

subsection \<open>Data\<close>

type_synonym path = string
type_synonym time = int

text \<open>\<open>http.Response\<close>, as far as the commands read it. \<open>Header\<close> is keyed by the
  canonical header name.\<close>

record response =
  StatusCode :: nat
  Status :: string
  Header :: "(string \<times> string) list"

text \<open>The three results of gorequest's \<open>End()\<close>. \<open>Errs = []\<close> is Go's \<open>errs == nil\<close>.\<close>

record httpResult =
  Resp :: "response option"
  Body :: string
  Errs :: "string list"

datatype httpMethod = GET | POST

text \<open>A request as the commands build it: every \<open>Query(...)\<close> call adds one string,
  \<open>SendFile\<close> attaches the file's path and what can be read there.\<close>

record request =
  Method :: httpMethod
  URL :: string
  Queries :: "string list"
  Upload :: "(path \<times> string option) option"

datatype netcall = MetadataCall string | HttpCall request

text \<open>Modelled from the spec: the declarations of \<open>metaData\<close> and of its commit entries
  are not among the source files; section 3 of the specification gives the fields.\<close>

record commitInfo =
  Parent :: string
  AuthorName :: string
  AuthorEmail :: string
  Message :: string
  Timestamp :: string
  Digest :: string

record metaData =
  ActiveBranch :: string
  Branches :: "(string \<times> string) list"
  Commits :: "(string \<times> commitInfo) list"

datatype sysCall = StatCall | MkdirAllCall | WriteFileCall | ReadFileCall | ChtimesCall

text \<open>One constructor for each place where a command returns an error; the text of
  \<open>errors.New\<close> is given beside it.\<close>

datatype error =
    NoDatabaseSpecified      \<comment> \<open>No database file specified\<close>
  | OnlyOneDatabase          \<comment> \<open>Only one database can be downloaded (uploaded) at a time (for now)\<close>
  | BranchAndCommitGiven     \<comment> \<open>Either a branch name or commit ID can be given.  Not both at the same time!\<close>
  | BranchDoesntExist        \<comment> \<open>The requested branch doesn't exist\<close>
  | CommitDoesntExist        \<comment> \<open>The requested commit doesn't exist\<close>
  | DownloadError            \<comment> \<open>Error when downloading database\<close>
  | BranchNotKnown           \<comment> \<open>That database & branch aren't known on DBHub.io\<close>
  | NotFoundWithCommit string  \<comment> \<open>Requested database not found with commit %s.\<close>
  | DatabaseNotFound         \<comment> \<open>Requested database not found\<close>
  | DownloadFailed nat string  \<comment> \<open>Download failed with an error: HTTP status %d - '%v'\<close>
  | AuthorEmailRequired      \<comment> \<open>Both author name and email are required!\<close>
  | CommitMessageRequired    \<comment> \<open>Commit message is required!\<close>
  | UploadError              \<comment> \<open>Error when uploading database to the cloud\<close>
  | UploadFailed nat string  \<comment> \<open>Upload failed with an error: HTTP status %d - '%v'\<close>
  | OSError sysCall path     \<comment> \<open>the error of a system call on a path\<close>
  | TimeParseError string    \<comment> \<open>the error of time.Parse on a value\<close>
  | JSONError string         \<comment> \<open>the error of json.Unmarshal on a body\<close>
  | PrintfError              \<comment> \<open>the error of numFormat.Printf\<close>
  | MetadataFetchError string  \<comment> \<open>the error of updateMetadata for a database\<close>
  | InvariantViolation       \<comment> \<open>saveMetadata rejects the record\<close>
  | MetadataIOError string   \<comment> \<open>saveMetadata cannot write the record of a database\<close>
  | NilResponsePanic         \<comment> \<open>resp.StatusCode read on a nil response\<close>

text \<open>What \<open>ioutil.WriteFile\<close> can do: it opens the file truncating it, writes, and
  closes. It fails either at the open, leaving the file as it was, or later, leaving
  the bytes written so far.\<close>

datatype writeOutcome = WriteOK | OpenFails | WriteFailsAfter nat

text \<open>What the commands print on standard output.\<close>

datatype printed =
    PullBranchMsg string string nat string
  | PullCommitMsg string string nat string
  | PullGenericMsg string nat
  | PushParseErrorMsg string
  | PushReport string string string "string option" nat string

record pullFlags =
  pullCmdBranch :: string
  pullCmdCommit :: string

record pushFlags =
  pushCmdBranch :: string
  pushCmdCommit :: string
  pushCmdDB :: string
  pushCmdEmail :: string
  pushCmdLicence :: string
  pushCmdMsg :: string
  pushCmdName :: string
  pushCmdForce :: bool
  pushCmdPublic :: bool

text \<open>The surroundings of a run. The package variables \<open>cloud\<close> and \<open>certUser\<close> and the
  configuration read through viper are declared outside the two source files; the
  library functions are Go's; \<open>Remote\<close> and \<open>RemoteMeta\<close> are the server; the remaining
  fields say which system calls fail.\<close>

record env =
  cloud :: string
  certUser :: string
  configAuthor :: "string option"
  configEmail :: "string option"
  Sum256 :: "string \<Rightarrow> string"
  Join :: "string list \<Rightarrow> path"
  Base :: "path \<Rightarrow> string"
  QueryEscape :: "string \<Rightarrow> string"
  ParseRFC3339 :: "string \<Rightarrow> time option"
  FormatRFC3339 :: "time \<Rightarrow> string"
  Unmarshal :: "string \<Rightarrow> (string \<rightharpoonup> string) option"
  EncodeMeta :: "metaData \<Rightarrow> string"
  Now :: time
  Remote :: "request \<Rightarrow> httpResult"
  RemoteMeta :: "string \<Rightarrow> metaData option"
  MkdirFails :: "path \<Rightarrow> bool"
  WriteOutcome :: "path \<Rightarrow> writeOutcome"
  ReadFails :: "path \<Rightarrow> bool"
  ChtimesFails :: "path \<Rightarrow> bool"
  MetaWriteOutcome :: "string \<Rightarrow> writeOutcome"
  PrintfFails :: bool

text \<open>The state a command runs on and leaves behind: the files and directories of the
  disk with their modification times, the metadata records (\<open>metaStore\<close>, the record
  of each database as a reader finds it, and \<open>metaTemp\<close>, the place beside it for the
  temporary records that the specification asks of a save), the calls made to the
  server so far, and what was printed.\<close>

record world =
  files :: "path \<rightharpoonup> string"
  dirs :: "path set"
  mtimes :: "path \<rightharpoonup> time"
  metaStore :: "string \<rightharpoonup> string"
  metaTemp :: "string \<rightharpoonup> string"
  netlog :: "netcall list"
  stdout :: "printed list"

subsection \<open>Library functions with a fixed meaning\<close>

definition hexDigit :: "nat \<Rightarrow> char" where
  "hexDigit n = ''0123456789abcdef'' ! (n mod 16)"

text \<open>\<open>hex.EncodeToString\<close>: two lower-case digits for each byte.\<close>

definition EncodeToString :: "string \<Rightarrow> string" where
  "EncodeToString s =
     concat (map (\<lambda>c. [hexDigit ((of_char c :: nat) div 16), hexDigit (of_char c)]) s)"

text \<open>\<open>strings.Split\<close> with a separator of one character.\<close>

fun Split :: "string \<Rightarrow> char \<Rightarrow> string list" where
  "Split [] sep = [[]]"
| "Split (x # xs) sep =
     (if x = sep then [] # Split xs sep
      else (case Split xs sep of
              [] \<Rightarrow> [[x]]
            | y # ys \<Rightarrow> (x # y) # ys))"

text \<open>\<open>strings.TrimLeft\<close> and \<open>strings.Trim\<close> with a cutset of one character.\<close>

definition TrimLeft :: "string \<Rightarrow> char \<Rightarrow> string" where
  "TrimLeft s c = dropWhile (\<lambda>x. x = c) s"

definition Trim :: "string \<Rightarrow> char \<Rightarrow> string" where
  "Trim s c = rev (dropWhile (\<lambda>x. x = c) (rev (dropWhile (\<lambda>x. x = c) s)))"

definition HasPrefix :: "string \<Rightarrow> string \<Rightarrow> bool" where
  "HasPrefix s p \<longleftrightarrow> take (length p) s = p"

text \<open>\<open>resp.Header.Get\<close>: the empty string when the header is absent.\<close>

definition HeaderGet :: "response \<Rightarrow> string \<Rightarrow> string" where
  "HeaderGet r k = (case map_of (Header r) k of None \<Rightarrow> [] | Some v \<Rightarrow> v)"

text \<open>\<open>fmt.Sprintf("%v", b)\<close> for a boolean.\<close>

definition showBool :: "bool \<Rightarrow> string" where
  "showBool b = (if b then ''true'' else ''false'')"

subsection \<open>System calls\<close>

text \<open>\<open>os.Stat\<close> returns no error exactly for a path that is there.\<close>

definition pathExists :: "world \<Rightarrow> path \<Rightarrow> bool" where
  "pathExists w p \<longleftrightarrow> files w p \<noteq> None \<or> p \<in> dirs w"

definition WriteFile :: "env \<Rightarrow> path \<Rightarrow> string \<Rightarrow> world \<Rightarrow> error option \<times> world" where
  "WriteFile e p d w =
     (case WriteOutcome e p of
        WriteOK \<Rightarrow>
          (None, w\<lparr>files := (files w)(p \<mapsto> d), mtimes := (mtimes w)(p \<mapsto> Now e)\<rparr>)
      | OpenFails \<Rightarrow> (Some (OSError WriteFileCall p), w)
      | WriteFailsAfter n \<Rightarrow>
          (Some (OSError WriteFileCall p),
           w\<lparr>files := (files w)(p \<mapsto> take n d), mtimes := (mtimes w)(p \<mapsto> Now e)\<rparr>))"

definition ReadFile :: "env \<Rightarrow> world \<Rightarrow> path \<Rightarrow> error + string" where
  "ReadFile e w p =
     (case files w p of
        None \<Rightarrow> Inl (OSError ReadFileCall p)
      | Some d \<Rightarrow> if ReadFails e p then Inl (OSError ReadFileCall p) else Inr d)"

definition Chtimes :: "env \<Rightarrow> path \<Rightarrow> time \<Rightarrow> world \<Rightarrow> error option \<times> world" where
  "Chtimes e p t w =
     (if ChtimesFails e p \<or> \<not> pathExists w p then (Some (OSError ChtimesCall p), w)
      else (None, w\<lparr>mtimes := (mtimes w)(p \<mapsto> t)\<rparr>))"

text \<open>\<open>os.MkdirAll\<close> of the cache directory \<open>.dio/<db>/db\<close> makes its parents too.\<close>

definition MkdirAllCache :: "env \<Rightarrow> string \<Rightarrow> world \<Rightarrow> error option \<times> world" where
  "MkdirAllCache e db w =
     (if MkdirFails e (Join e [''.dio'', db, ''db'']) then
        (Some (OSError MkdirAllCall (Join e [''.dio'', db, ''db''])), w)
      else
        (None, w\<lparr>dirs := dirs w \<union>
           {Join e [''.dio''], Join e [''.dio'', db], Join e [''.dio'', db, ''db'']}\<rparr>))"

definition modTime :: "world \<Rightarrow> path \<Rightarrow> time" where
  "modTime w p = (case mtimes w p of None \<Rightarrow> 0 | Some t \<Rightarrow> t)"

definition fileSize :: "world \<Rightarrow> path \<Rightarrow> nat" where
  "fileSize w p = (case files w p of None \<Rightarrow> 0 | Some d \<Rightarrow> length d)"

definition Printf :: "env \<Rightarrow> printed \<Rightarrow> world \<Rightarrow> (error + unit) \<times> world" where
  "Printf e m w =
     (if PrintfFails e then (Inl PrintfError, w)
      else (Inr (), w\<lparr>stdout := stdout w @ [m]\<rparr>))"

subsection \<open>The metadata store\<close>

text \<open>Modelled from the spec: \<open>saveMetadata\<close> is called by both commands and defined in
  neither source file. Section 4.2 of the specification gives what it checks (every
  value of \<open>Branches\<close> is a key of \<open>Commits\<close>; \<open>ActiveBranch\<close>, if set, is a key of
  \<open>Branches\<close>; a record that fails is rejected with \<open>InvariantViolation\<close>) and that it
  fails with an I/O error on unwritable storage. Section 9 says how the source
  persists the record: by direct overwrite, with no temporary location and no rename.
  The overwrite is a write like \<open>ioutil.WriteFile\<close>: it fails at the open, leaving the
  record as it was, or is cut short, leaving the bytes written so far.\<close>

definition validMeta :: "metaData \<Rightarrow> bool" where
  "validMeta m \<longleftrightarrow>
     (ActiveBranch m = [] \<or> map_of (Branches m) (ActiveBranch m) \<noteq> None) \<and>
     list_all (\<lambda>(b, c). map_of (Commits m) c \<noteq> None) (Branches m)"

definition saveMetadata :: "env \<Rightarrow> string \<Rightarrow> metaData \<Rightarrow> world \<Rightarrow> error option \<times> world" where
  "saveMetadata e db meta w =
     (if \<not> validMeta meta then (Some InvariantViolation, w)
      else
        (case MetaWriteOutcome e db of
           WriteOK \<Rightarrow> (None, w\<lparr>metaStore := (metaStore w)(db \<mapsto> EncodeMeta e meta)\<rparr>)
         | OpenFails \<Rightarrow> (Some (MetadataIOError db), w)
         | WriteFailsAfter n \<Rightarrow>
             (Some (MetadataIOError db),
              w\<lparr>metaStore := (metaStore w)(db \<mapsto> take n (EncodeMeta e meta))\<rparr>)))"

text \<open>Modelled from the spec: \<open>updateMetadata\<close> is called by both commands and defined in
  neither source file. Section 4.4 of the specification, step 1: it requests the remote
  metadata of the database, no content; the callers' comments say that its second
  argument decides whether the metadata is stored to disk.\<close>

definition updateMetadata ::
  "env \<Rightarrow> string \<Rightarrow> bool \<Rightarrow> world \<Rightarrow> (error + metaData) \<times> world" where
  "updateMetadata e db save w =
     (let w1 = w\<lparr>netlog := netlog w @ [MetadataCall db]\<rparr> in
      case RemoteMeta e db of
        None \<Rightarrow> (Inl (MetadataFetchError db), w1)
      | Some meta \<Rightarrow>
          if save then
            (case saveMetadata e db meta w1 of
               (Some err, w2) \<Rightarrow> (Inl err, w2)
             | (None, w2) \<Rightarrow> (Inr meta, w2))
          else (Inr meta, w1))"

subsection \<open>pull\<close>

definition pullRequest :: "env \<Rightarrow> string \<Rightarrow> pullFlags \<Rightarrow> request" where
  "pullRequest e db fl =
     \<lparr>Method = GET,
      URL = cloud e @ ''/'' @ certUser e @ ''/'' @ db,
      Queries =
        [if pullCmdBranch fl \<noteq> [] then ''branch='' @ QueryEscape e (pullCmdBranch fl)
         else ''commit='' @ QueryEscape e (pullCmdCommit fl)],
      Upload = None\<rparr>"

definition cachePath :: "env \<Rightarrow> string \<Rightarrow> string \<Rightarrow> path" where
  "cachePath e db body = Join e [''.dio'', db, ''db'', EncodeToString (Sum256 e body)]"

text \<open>Lines 154 to 176: the report.\<close>

definition pullReport ::
  "env \<Rightarrow> string \<Rightarrow> pullFlags \<Rightarrow> response \<Rightarrow> string \<Rightarrow> world \<Rightarrow> (error + unit) \<times> world" where
  "pullReport e db fl resp body w =
     (if pullCmdBranch fl \<noteq> [] then
        Printf e (PullBranchMsg db (cloud e) (length body) (pullCmdBranch fl)) w
      else if HeaderGet resp ''Commit-Id'' \<noteq> [] then
        Printf e (PullCommitMsg db (cloud e) (length body) (HeaderGet resp ''Commit-Id'')) w
      else Printf e (PullGenericMsg db (length body)) w)"

text \<open>Lines 124 to 130: the value of the \<open>modification-date\<close> parameter of the
  \<open>Content-Disposition\<close> header, read only when the header has four fields separated
  by semicolons and the third is that parameter. \<open>b ! 1\<close> is in range: \<open>a\<close> starts with
  \<open>modification-date=\<close>.\<close>

definition modificationDate :: "response \<Rightarrow> string option" where
  "modificationDate resp =
     (let disp = HeaderGet resp ''Content-Disposition'' in
      if disp \<noteq> [] then
        (let s = Split disp (CHR '';'') in
         if length s = 4 then
           (let a = TrimLeft (s ! 2) (CHR '' '') in
            if HasPrefix a ''modification-date='' then
              (let b = Split a (CHR ''='');
                   c = Trim (b ! 1) (CHR 0x22)
               in Some c)
            else None)
         else None)
      else None)"

text \<open>Lines 122 to 141: the modification time of the working copy.\<close>

definition setModTime :: "env \<Rightarrow> string \<Rightarrow> response \<Rightarrow> world \<Rightarrow> error option \<times> world" where
  "setModTime e db resp w =
     (case modificationDate resp of
        None \<Rightarrow> (None, w)
      | Some c \<Rightarrow>
          (case ParseRFC3339 e c of
             None \<Rightarrow> (Some (TimeParseError c), w)
           | Some lastMod \<Rightarrow> Chtimes e db lastMod w))"

text \<open>Lines 122 to 177: what pull does once both copies of the database are written.\<close>

definition pullFinish ::
  "env \<Rightarrow> string \<Rightarrow> pullFlags \<Rightarrow> metaData \<Rightarrow> response \<Rightarrow> string \<Rightarrow> world
     \<Rightarrow> (error + unit) \<times> world" where
  "pullFinish e db fl meta resp body w =
     (case setModTime e db resp w of
        (Some err, w1) \<Rightarrow> (Inl err, w1)
      | (None, w1) \<Rightarrow>
          (let meta' = (if HeaderGet resp ''Branch'' \<noteq> []
                        then meta\<lparr>ActiveBranch := HeaderGet resp ''Branch''\<rparr> else meta)
           in case saveMetadata e db meta' w1 of
                (Some err, w2) \<Rightarrow> (Inl err, w2)
              | (None, w2) \<Rightarrow> pullReport e db fl resp body w2))"

text \<open>Lines 98 to 120: the cache directory, the copy in the cache, the working copy.\<close>

definition pullStore ::
  "env \<Rightarrow> string \<Rightarrow> string \<Rightarrow> world \<Rightarrow> error option \<times> world" where
  "pullStore e db body w =
     (case (if \<not> pathExists w (Join e [''.dio'', db, ''db'']) then MkdirAllCache e db w
            else (None, w)) of
        (Some err, w1) \<Rightarrow> (Some err, w1)
      | (None, w1) \<Rightarrow>
          (let shaSum = EncodeToString (Sum256 e body) in
           case WriteFile e (Join e [''.dio'', db, ''db'', shaSum]) body w1 of
             (Some err, w2) \<Rightarrow> (Some err, w2)
           | (None, w2) \<Rightarrow> WriteFile e db body w2))"

text \<open>Lines 67 to 96: the download.\<close>

definition pullDownload ::
  "env \<Rightarrow> string \<Rightarrow> pullFlags \<Rightarrow> world \<Rightarrow> (error + response \<times> string) \<times> world" where
  "pullDownload e db fl w =
     (let req = pullRequest e db fl;
          res = Remote e req;
          w1 = w\<lparr>netlog := netlog w @ [HttpCall req]\<rparr>
      in if Errs res \<noteq> [] then (Inl DownloadError, w1)
         else
           (case Resp res of
              None \<Rightarrow> (Inl NilResponsePanic, w1)
            | Some resp \<Rightarrow>
                if StatusCode resp \<noteq> 200 then
                  (if StatusCode resp = 404 then
                     (if pullCmdBranch fl \<noteq> [] then (Inl BranchNotKnown, w1)
                      else if pullCmdCommit fl \<noteq> [] then
                        (Inl (NotFoundWithCommit (pullCmdCommit fl)), w1)
                      else (Inl DatabaseNotFound, w1))
                   else (Inl (DownloadFailed (StatusCode resp) (Status resp)), w1))
                else (Inr (resp, Body res), w1)))"

text \<open>Lines 46 to 120: everything up to and including the two writes of the database.\<close>

definition pullFetch ::
  "env \<Rightarrow> string \<Rightarrow> pullFlags \<Rightarrow> world
     \<Rightarrow> (error + metaData \<times> response \<times> string) \<times> world" where
  "pullFetch e db fl w =
     (case updateMetadata e db False w of
        (Inl err, w1) \<Rightarrow> (Inl err, w1)
      | (Inr meta, w1) \<Rightarrow>
          if pullCmdBranch fl \<noteq> [] \<and> map_of (Branches meta) (pullCmdBranch fl) = None then
            (Inl BranchDoesntExist, w1)
          else if pullCmdCommit fl \<noteq> [] \<and> map_of (Commits meta) (pullCmdCommit fl) = None then
            (Inl CommitDoesntExist, w1)
          else
            (case pullDownload e db fl w1 of
               (Inl err, w2) \<Rightarrow> (Inl err, w2)
             | (Inr (resp, body), w2) \<Rightarrow>
                 (case pullStore e db body w2 of
                    (Some err, w3) \<Rightarrow> (Inl err, w3)
                  | (None, w3) \<Rightarrow> (Inr (meta, resp, body), w3))))"

definition pullCmd :: "env \<Rightarrow> string list \<Rightarrow> pullFlags \<Rightarrow> world \<Rightarrow> (error + unit) \<times> world" where
  "pullCmd e args fl w =
     (if length args = 0 then (Inl NoDatabaseSpecified, w)
      else if length args > 1 then (Inl OnlyOneDatabase, w)
      else if pullCmdBranch fl \<noteq> [] \<and> pullCmdCommit fl \<noteq> [] then (Inl BranchAndCommitGiven, w)
      else
        (let db = hd args in
         case pullFetch e db fl w of
           (Inl err, w1) \<Rightarrow> (Inl err, w1)
         | (Inr (meta, resp, body), w1) \<Rightarrow> pullFinish e db fl meta resp body w1))"

subsection \<open>push\<close>

text \<open>Lines 81 to 96: a pointer saved under \<open>.dio/<file>\<close> replaces the value of the
  flag whenever \<open>os.Stat\<close> finds it.\<close>

definition loadPointer :: "env \<Rightarrow> world \<Rightarrow> path \<Rightarrow> string \<Rightarrow> error + string" where
  "loadPointer e w p flag = (if pathExists w p then ReadFile e w p else Inr flag)"

definition pushRequest :: "env \<Rightarrow> string \<Rightarrow> pushFlags \<Rightarrow> world \<Rightarrow> request" where
  "pushRequest e file fl w =
     \<lparr>Method = POST,
      URL = cloud e @ ''/'' @ certUser e @ ''/'' @ file,
      Queries =
        [''branch='' @ QueryEscape e (pushCmdBranch fl),
         ''commitmsg='' @ QueryEscape e (pushCmdMsg fl),
         ''lastmodified='' @ QueryEscape e (FormatRFC3339 e (modTime w file)),
         ''commit='' @ pushCmdCommit fl,
         ''public='' @ showBool (pushCmdPublic fl),
         ''force='' @ showBool (pushCmdForce fl)]
        @ (if pushCmdLicence fl \<noteq> [] then [''licence='' @ QueryEscape e (pushCmdLicence fl)]
           else []),
      Upload = Some (file, files w file)\<rparr>"

definition commitId :: "(string \<rightharpoonup> string) \<Rightarrow> string" where
  "commitId parsedResponse =
     (case parsedResponse ''commit_id'' of None \<Rightarrow> [] | Some c \<Rightarrow> c)"

text \<open>Lines 132 to 162: what push does with the body of an accepted upload.\<close>

definition pushFinish ::
  "env \<Rightarrow> string \<Rightarrow> pushFlags \<Rightarrow> nat \<Rightarrow> string \<Rightarrow> world \<Rightarrow> (error + unit) \<times> world" where
  "pushFinish e file fl sz body w =
     (case Unmarshal e body of
        None \<Rightarrow> (Inl (JSONError body), w\<lparr>stdout := stdout w @ [PushParseErrorMsg body]\<rparr>)
      | Some parsedResponse \<Rightarrow>
          (case updateMetadata e file True w of
             (Inl err, w1) \<Rightarrow> (Inl err, w1)
           | (Inr meta, w1) \<Rightarrow>
               (case WriteFile e (Join e [''.dio'', file, ''commit''])
                       (commitId parsedResponse) w1 of
                  (Some err, w2) \<Rightarrow> (Inl err, w2)
                | (None, w2) \<Rightarrow>
                    (Inr (),
                     w2\<lparr>stdout := stdout w2 @
                        [PushReport (cloud e) (pushCmdDB fl) (pushCmdBranch fl)
                           (if pushCmdLicence fl \<noteq> [] then Some (pushCmdLicence fl) else None)
                           sz (pushCmdMsg fl)]\<rparr>))))"

text \<open>Lines 98 to 130: the upload, with the flags as lines 76 to 96 have set them. A nil
  response without errors passes the status check of line 127.\<close>

definition pushSend ::
  "env \<Rightarrow> string \<Rightarrow> pushFlags \<Rightarrow> world \<Rightarrow> (error + unit) \<times> world" where
  "pushSend e file fl w =
     (let req = pushRequest e file fl w;
          res = Remote e req;
          w1 = w\<lparr>netlog := netlog w @ [HttpCall req]\<rparr>
      in if Errs res \<noteq> [] then (Inl UploadError, w1)
         else
           (case Resp res of
              None \<Rightarrow> pushFinish e file fl (fileSize w file) (Body res) w1
            | Some resp \<Rightarrow>
                if StatusCode resp \<noteq> 201 then
                  (Inl (UploadFailed (StatusCode resp) (Status resp)), w1)
                else pushFinish e file fl (fileSize w file) (Body res) w1))"

text \<open>Lines 32 to 96: the checks made before anything is sent, and the flags as the
  command has set them when it builds the request.\<close>

definition pushPrepare ::
  "env \<Rightarrow> string list \<Rightarrow> pushFlags \<Rightarrow> world \<Rightarrow> error + string \<times> pushFlags" where
  "pushPrepare e args fl w =
     (if length args = 0 then Inl NoDatabaseSpecified
      else if length args > 1 then Inl OnlyOneDatabase
      else
        (let file = hd args in
         if \<not> pathExists w file then Inl (OSError StatCall file)
         else
           (let pushAuthor =
                  (if pushCmdName fl \<noteq> [] then pushCmdName fl
                   else (case configAuthor e of None \<Rightarrow> [] | Some u \<Rightarrow> u));
                pushEmail =
                  (if pushCmdEmail fl \<noteq> [] then pushCmdEmail fl
                   else (case configEmail e of None \<Rightarrow> [] | Some v \<Rightarrow> v))
            in if pushAuthor = [] \<or> pushEmail = [] then Inl AuthorEmailRequired
               else if pushCmdMsg fl = [] then Inl CommitMessageRequired
               else
                 (let fl1 = (if pushCmdDB fl = [] then fl\<lparr>pushCmdDB := Base e file\<rparr> else fl)
                  in case loadPointer e w (Join e [''.dio'', file, ''branch''])
                            (pushCmdBranch fl1) of
                       Inl err \<Rightarrow> Inl err
                     | Inr b \<Rightarrow>
                         (case loadPointer e w (Join e [''.dio'', file, ''commit''])
                                 (pushCmdCommit fl1) of
                            Inl err \<Rightarrow> Inl err
                          | Inr c \<Rightarrow>
                              Inr (file, fl1\<lparr>pushCmdBranch := b, pushCmdCommit := c\<rparr>))))))"

definition pushCmd :: "env \<Rightarrow> string list \<Rightarrow> pushFlags \<Rightarrow> world \<Rightarrow> (error + unit) \<times> world" where
  "pushCmd e args fl w =
     (case pushPrepare e args fl w of
        Inl err \<Rightarrow> (Inl err, w)
      | Inr (file, fl') \<Rightarrow> pushSend e file fl' w)"

subsection \<open>The error taxonomy of the specification\<close>

text \<open>Section 7 of the specification names kinds of error; the commands return plain
  \<open>errors.New\<close> values and the errors of the library. \<open>kindOf\<close> places each error of
  the commands in the specification's taxonomy, following its descriptions of the
  kinds. A panic has no kind.\<close>

datatype errorKind =
    InvalidSelectorError | ValidationError | NotFoundError | RemoteError
  | ConflictError | ProtocolError | IOError | InvariantViolationError

fun kindOf :: "error \<Rightarrow> errorKind option" where
  "kindOf BranchAndCommitGiven = Some InvalidSelectorError"
| "kindOf NoDatabaseSpecified = Some ValidationError"
| "kindOf OnlyOneDatabase = Some ValidationError"
| "kindOf AuthorEmailRequired = Some ValidationError"
| "kindOf CommitMessageRequired = Some ValidationError"
| "kindOf BranchDoesntExist = Some NotFoundError"
| "kindOf CommitDoesntExist = Some NotFoundError"
| "kindOf BranchNotKnown = Some NotFoundError"
| "kindOf (NotFoundWithCommit c) = Some NotFoundError"
| "kindOf DatabaseNotFound = Some NotFoundError"
| "kindOf (MetadataFetchError db) = Some RemoteError"
| "kindOf DownloadError = Some RemoteError"
| "kindOf (DownloadFailed n s) = Some RemoteError"
| "kindOf UploadError = Some RemoteError"
| "kindOf (UploadFailed n s) = Some RemoteError"
| "kindOf (TimeParseError s) = Some ProtocolError"
| "kindOf (JSONError s) = Some ProtocolError"
| "kindOf (OSError c p) = Some IOError"
| "kindOf PrintfError = Some IOError"
| "kindOf (MetadataIOError db) = Some IOError"
| "kindOf InvariantViolation = Some InvariantViolationError"
| "kindOf NilResponsePanic = None"

subsection \<open>Sample runs\<close>

text \<open>A small world for the closed examples below: a server holding one database with
  one branch and one commit, a disk where every call succeeds, and library functions
  cut down to the few values the examples meet. \<open>joinSlash\<close> joins path elements as
  \<open>filepath.Join\<close> does for elements that need no cleaning.\<close>

definition joinSlash :: "string list \<Rightarrow> path" where
  "joinSlash xs = foldr (\<lambda>x acc. if acc = [] then x else x @ ''/'' @ acc) xs []"

definition sampleMeta :: metaData where
  "sampleMeta =
     \<lparr>ActiveBranch = ''master'',
      Branches = [(''master'', ''c1'')],
      Commits = [(''c1'', \<lparr>Parent = [], AuthorName = ''Ada'', AuthorEmail = ''ada@example.org'',
                           Message = ''first'', Timestamp = ''2019-01-01T00:00:00Z'',
                           Digest = ''d1''\<rparr>)]\<rparr>"

definition sampleDisposition :: "string \<Rightarrow> string" where
  "sampleDisposition date =
     ''attachment; filename=sales.db; modification-date='' @ [CHR 0x22] @ date @ [CHR 0x22]
       @ ''; size=6''"

definition sampleRemote :: "string \<Rightarrow> string \<Rightarrow> request \<Rightarrow> httpResult" where
  "sampleRemote date json req =
     (if Method req = GET then
        \<lparr>Resp = Some \<lparr>StatusCode = 200, Status = ''200 OK'',
                       Header = [(''Content-Disposition'', sampleDisposition date),
                                 (''Branch'', ''master''), (''Commit-Id'', ''c1'')]\<rparr>,
         Body = ''SQLite'', Errs = []\<rparr>
      else
        \<lparr>Resp = Some \<lparr>StatusCode = 201, Status = ''201 Created'', Header = []\<rparr>,
         Body = json, Errs = []\<rparr>)"

definition conflictRemote :: "request \<Rightarrow> httpResult" where
  "conflictRemote req =
     \<lparr>Resp = Some \<lparr>StatusCode = 409, Status = ''409 Conflict'', Header = []\<rparr>,
      Body = ''commit history differs'', Errs = []\<rparr>"

definition sampleEnv :: env where
  "sampleEnv =
     \<lparr>cloud = ''https://dbhub.io'', certUser = ''ada'',
      configAuthor = Some ''Ada'', configEmail = Some ''ada@example.org'',
      Sum256 = (\<lambda>b. take 2 b),
      Join = joinSlash,
      Base = (\<lambda>p. p),
      QueryEscape = (\<lambda>s. s),
      ParseRFC3339 = (\<lambda>s. if s = ''2019-01-01T00:00:00Z'' then Some 1546300800 else None),
      FormatRFC3339 = (\<lambda>t. if t = 1546300800 then ''2019-01-01T00:00:00Z''
                             else ''1970-01-01T00:00:00Z''),
      Unmarshal = (\<lambda>b. if b = ''{commit_id:abc123}'' then Some [''commit_id'' \<mapsto> ''abc123'']
                         else if b = ''{}'' then Some Map.empty else None),
      EncodeMeta = (\<lambda>m. ''branch:'' @ ActiveBranch m),
      Now = 1546300900,
      Remote = sampleRemote ''2019-01-01T00:00:00Z'' ''{commit_id:abc123}'',
      RemoteMeta = (\<lambda>db. Some sampleMeta),
      MkdirFails = (\<lambda>p. False),
      WriteOutcome = (\<lambda>p. WriteOK),
      ReadFails = (\<lambda>p. False),
      ChtimesFails = (\<lambda>p. False),
      MetaWriteOutcome = (\<lambda>db. WriteOK),
      PrintfFails = False\<rparr>"

text \<open>The same, with a disk that fills up three bytes into the working copy.\<close>

definition diskFullEnv :: env where
  "diskFullEnv =
     sampleEnv\<lparr>WriteOutcome := (\<lambda>p. if p = ''sales.db'' then WriteFailsAfter 3 else WriteOK)\<rparr>"

text \<open>The same, with a server that sends a date that is none.\<close>

definition badDateEnv :: env where
  "badDateEnv = sampleEnv\<lparr>Remote := sampleRemote ''yesterday'' ''{commit_id:abc123}''\<rparr>"

text \<open>The same, with a server that answers an upload with an empty JSON object.\<close>

definition noCommitIdEnv :: env where
  "noCommitIdEnv = sampleEnv\<lparr>Remote := sampleRemote ''2019-01-01T00:00:00Z'' ''{}''\<rparr>"

text \<open>The same, with a server that refuses every request with status 409.\<close>

definition conflictEnv :: env where
  "conflictEnv = sampleEnv\<lparr>Remote := conflictRemote\<rparr>"



text \<open>The same, with a server that answers an upload with a JSON array, which
  \<open>json.Unmarshal\<close> does not decode into a map of strings; and one that answers it with
  an empty object and then fails to send the metadata.\<close>

definition arrayBodyEnv :: env where
  "arrayBodyEnv = sampleEnv\<lparr>Remote := sampleRemote ''2019-01-01T00:00:00Z'' ''[1,2]''\<rparr>"

definition noMetadataEnv :: env where
  "noMetadataEnv = noCommitIdEnv\<lparr>RemoteMeta := (\<lambda>db. None)\<rparr>"



definition emptyWorld :: world where
  "emptyWorld =
     \<lparr>files = Map.empty, dirs = {}, mtimes = Map.empty, metaStore = Map.empty,
      metaTemp = Map.empty, netlog = [], stdout = []\<rparr>"

text \<open>A directory with the database in it, never pushed or pulled; and one where an
  earlier run has left its branch and commit pointers.\<close>

definition untrackedWorld :: world where
  "untrackedWorld = emptyWorld\<lparr>files := [''sales.db'' \<mapsto> ''SQLite'']\<rparr>"

definition trackedWorld :: world where
  "trackedWorld =
     emptyWorld\<lparr>files := [''sales.db'' \<mapsto> ''SQLite'',
                           ''.dio/sales.db/branch'' \<mapsto> ''master'',
                           ''.dio/sales.db/commit'' \<mapsto> ''c1'']\<rparr>"


definition pullMaster :: pullFlags where
  "pullMaster = \<lparr>pullCmdBranch = ''master'', pullCmdCommit = []\<rparr>"


text \<open>\<open>push --branch feature --commit c0 --message second\<close>, with and without \<open>--force\<close>.\<close>

definition pushExplicit :: "bool \<Rightarrow> pushFlags" where
  "pushExplicit force =
     \<lparr>pushCmdBranch = ''feature'', pushCmdCommit = ''c0'', pushCmdDB = [],
      pushCmdEmail = [], pushCmdLicence = [], pushCmdMsg = ''second'', pushCmdName = [],
      pushCmdForce = force, pushCmdPublic = False\<rparr>"

section \<open>Properties\<close>

subsection \<open>What each step of pull touches\<close>

lemma WriteFile_frame:
  "WriteFile e p d w = (r, w') \<Longrightarrow>
     metaStore w' = metaStore w \<and> metaTemp w' = metaTemp w \<and> netlog w' = netlog w \<and>
     dirs w' = dirs w \<and> stdout w' = stdout w"
  by (auto simp: WriteFile_def split: writeOutcome.splits)

lemma WriteFile_ok:
  "WriteFile e p d w = (None, w') \<Longrightarrow>
     WriteOutcome e p = WriteOK \<and> files w' = (files w)(p \<mapsto> d)"
  by (auto simp: WriteFile_def split: writeOutcome.splits)

lemma MkdirAllCache_frame:
  "MkdirAllCache e db w = (r, w') \<Longrightarrow>
     files w' = files w \<and> metaStore w' = metaStore w \<and> metaTemp w' = metaTemp w \<and>
     netlog w' = netlog w \<and> stdout w' = stdout w"
  by (auto simp: MkdirAllCache_def split: if_splits)

lemma pullStore_frame:
  "pullStore e db body w = (r, w') \<Longrightarrow>
     metaStore w' = metaStore w \<and> metaTemp w' = metaTemp w \<and> netlog w' = netlog w \<and>
     stdout w' = stdout w"
  unfolding pullStore_def Let_def
  by (auto split: if_splits prod.splits option.splits dest!: WriteFile_frame MkdirAllCache_frame)

lemma pullStore_ok:
  "pullStore e db body w = (None, w') \<Longrightarrow>
     WriteOutcome e (cachePath e db body) = WriteOK \<and> WriteOutcome e db = WriteOK \<and>
     files w' = (files w)(cachePath e db body \<mapsto> body, db \<mapsto> body)"
  unfolding pullStore_def Let_def cachePath_def
  by (auto split: if_splits prod.splits option.splits dest!: WriteFile_ok MkdirAllCache_frame)


lemma Chtimes_frame:
  "Chtimes e p t w = (r, w') \<Longrightarrow>
     files w' = files w \<and> metaStore w' = metaStore w \<and> metaTemp w' = metaTemp w \<and>
     netlog w' = netlog w \<and> stdout w' = stdout w \<and> dirs w' = dirs w"
  by (auto simp: Chtimes_def split: if_splits)

lemma setModTime_frame:
  "setModTime e db resp w = (r, w') \<Longrightarrow>
     files w' = files w \<and> metaStore w' = metaStore w \<and> metaTemp w' = metaTemp w \<and>
     netlog w' = netlog w \<and> stdout w' = stdout w \<and> dirs w' = dirs w"
  unfolding setModTime_def
  by (auto split: option.splits dest!: Chtimes_frame)

lemma saveMetadata_frame:
  "saveMetadata e db meta w = (r, w') \<Longrightarrow>
     files w' = files w \<and> netlog w' = netlog w \<and> stdout w' = stdout w \<and> dirs w' = dirs w
     \<and> mtimes w' = mtimes w"
  unfolding saveMetadata_def
  by (auto split: if_splits writeOutcome.splits)

lemma Printf_frame:
  "Printf e m w = (r, w') \<Longrightarrow>
     files w' = files w \<and> metaStore w' = metaStore w \<and> metaTemp w' = metaTemp w \<and>
     netlog w' = netlog w"
  by (auto simp: Printf_def split: if_splits)

lemma pullReport_frame:
  "pullReport e db fl resp body w = (r, w') \<Longrightarrow>
     files w' = files w \<and> metaStore w' = metaStore w \<and> metaTemp w' = metaTemp w \<and>
     netlog w' = netlog w"
  unfolding pullReport_def by (auto split: if_splits dest!: Printf_frame)

lemma pullFinish_files:
  "pullFinish e db fl meta resp body w = (r, w') \<Longrightarrow> files w' = files w \<and> netlog w' = netlog w"
  unfolding pullFinish_def Let_def
  by (auto split: prod.splits option.splits
           dest!: setModTime_frame saveMetadata_frame pullReport_frame)

lemma updateMetadata_nosave_frame:
  "updateMetadata e db False w = (r, w') \<Longrightarrow>
     files w' = files w \<and> metaStore w' = metaStore w \<and> metaTemp w' = metaTemp w \<and>
     stdout w' = stdout w \<and> dirs w' = dirs w \<and> mtimes w' = mtimes w"
  unfolding updateMetadata_def Let_def by (auto split: option.splits)

lemma pullDownload_frame:
  "pullDownload e db fl w = (r, w') \<Longrightarrow>
     files w' = files w \<and> metaStore w' = metaStore w \<and> metaTemp w' = metaTemp w \<and>
     stdout w' = stdout w \<and> dirs w' = dirs w \<and> mtimes w' = mtimes w"
  unfolding pullDownload_def Let_def by (auto split: option.splits if_splits)

lemma pullDownload_body:
  "pullDownload e db fl w = (Inr (resp, body), w') \<Longrightarrow>
     body = Body (Remote e (pullRequest e db fl)) \<and>
     Resp (Remote e (pullRequest e db fl)) = Some resp \<and> StatusCode resp = 200"
  unfolding pullDownload_def Let_def by (auto split: option.splits if_splits)

lemma pullFetch_ok:
  assumes "pullFetch e db fl w = (Inr (meta, resp, body), w')"
  shows "body = Body (Remote e (pullRequest e db fl)) \<and>
     WriteOutcome e (cachePath e db body) = WriteOK \<and> WriteOutcome e db = WriteOK \<and>
     files w' = (files w)(cachePath e db body \<mapsto> body, db \<mapsto> body) \<and>
     metaStore w' = metaStore w \<and> metaTemp w' = metaTemp w"
proof -
  from assms obtain w1 w2 where
    U: "updateMetadata e db False w = (Inr meta, w1)" and
    D: "pullDownload e db fl w1 = (Inr (resp, body), w2)" and
    S: "pullStore e db body w2 = (None, w')"
    unfolding pullFetch_def
    by (auto split: prod.splits sum.splits if_splits option.splits)
  note u = updateMetadata_nosave_frame [OF U]
  note d = pullDownload_frame [OF D]
  note b = pullDownload_body [OF D]
  note s = pullStore_ok [OF S]
  note f = pullStore_frame [OF S]
  show ?thesis using u d b s f by simp
qed

subsection \<open>The content cache\<close>







subsection \<open>Branch and commit given together\<close>




subsection \<open>Saving metadata\<close>




subsection \<open>The order of the writes of pull\<close>

lemma pullFetch_frame:
  assumes "pullFetch e db fl w = (r, w')"
  shows "metaStore w' = metaStore w \<and> metaTemp w' = metaTemp w"
proof (cases "updateMetadata e db False w")
  case (Pair m w1)
  note u = updateMetadata_nosave_frame [OF Pair]
  show ?thesis
  proof (cases "pullDownload e db fl w1")
    case P2: (Pair d w2)
    note dd = pullDownload_frame [OF P2]
    show ?thesis
    proof (cases d)
      case (Inl err)
      then show ?thesis using assms Pair P2 u dd
        unfolding pullFetch_def by (auto split: sum.splits if_splits)
    next
      case (Inr rb)
      obtain resp body where rb: "rb = (resp, body)" by (cases rb)
      obtain r3 w3 where S: "pullStore e db body w2 = (r3, w3)" by (cases "pullStore e db body w2")
      note f = pullStore_frame [OF S]
      show ?thesis using assms Pair P2 Inr rb S u dd f
        unfolding pullFetch_def by (auto split: sum.splits if_splits option.splits)
    qed
  qed
qed

lemma WriteFile_error:
  "WriteFile e p d w = (Some err, w') \<Longrightarrow> err = OSError WriteFileCall p"
  by (auto simp: WriteFile_def split: writeOutcome.splits)

lemma pullStore_error:
  "pullStore e db body w = (Some err, w') \<Longrightarrow>
     (\<exists>p. err = OSError WriteFileCall p) \<or> (\<exists>p. err = OSError MkdirAllCall p)"
  unfolding pullStore_def Let_def
  by (auto simp: MkdirAllCache_def split: if_splits prod.splits option.splits
           dest!: WriteFile_error)

lemma pullDownload_error:
  "pullDownload e db fl w = (Inl err, w') \<Longrightarrow>
     err \<in> {DownloadError, NilResponsePanic, BranchNotKnown, DatabaseNotFound} \<or>
     (\<exists>c. err = NotFoundWithCommit c) \<or> (\<exists>n s. err = DownloadFailed n s)"
  unfolding pullDownload_def Let_def by (auto split: option.splits if_splits)

lemma updateMetadata_nosave_error:
  "updateMetadata e db False w = (Inl err, w') \<Longrightarrow> err = MetadataFetchError db"
  unfolding updateMetadata_def Let_def by (auto split: option.splits)

lemma pullFetch_error:
  assumes "pullFetch e db fl w = (Inl err, w')"
  shows "(\<forall>c. err \<noteq> TimeParseError c) \<and> (\<forall>p. err \<noteq> OSError ChtimesCall p)"
proof (cases "updateMetadata e db False w")
  case (Pair m w1)
  show ?thesis
  proof (cases "pullDownload e db fl w1")
    case P2: (Pair d w2)
    show ?thesis
    proof (cases d)
      case (Inl err2)
      then show ?thesis
        using assms Pair P2 updateMetadata_nosave_error [of e db w _ w1]
          pullDownload_error [of e db fl w1 err2 w2]
        unfolding pullFetch_def by (auto split: sum.splits if_splits)
    next
      case (Inr rb)
      obtain resp body where rb: "rb = (resp, body)" by (cases rb)
      obtain r3 w3 where S: "pullStore e db body w2 = (r3, w3)" by (cases "pullStore e db body w2")
      show ?thesis
        using assms Pair P2 Inr rb S updateMetadata_nosave_error [of e db w _ w1]
          pullStore_error [of e db body w2 _ w3]
        unfolding pullFetch_def by (auto split: sum.splits if_splits option.splits)
    qed
  qed
qed

lemma saveMetadata_error:
  "saveMetadata e db meta w = (Some err, w') \<Longrightarrow>
     err = InvariantViolation \<or> err = MetadataIOError db"
  unfolding saveMetadata_def
  by (auto split: if_splits writeOutcome.splits)

lemma pullReport_error:
  "pullReport e db fl resp body w = (Inl err, w') \<Longrightarrow> err = PrintfError"
  unfolding pullReport_def Printf_def by (auto split: if_splits)

lemma pullFinish_stopped:
  assumes "pullFinish e db fl meta resp body w = (Inl err, w')"
    and "(\<exists>c. err = TimeParseError c) \<or> (\<exists>p. err = OSError ChtimesCall p)"
  shows "setModTime e db resp w = (Some err, w') \<and>
     metaStore w' = metaStore w \<and> metaTemp w' = metaTemp w"
proof (cases "setModTime e db resp w")
  case (Pair r1 w1)
  note f = setModTime_frame [OF Pair]
  show ?thesis
  proof (cases r1)
    case (Some err1)
    then show ?thesis using assms Pair f unfolding pullFinish_def by simp
  next
    case None
    let ?m = "if HeaderGet resp ''Branch'' \<noteq> []
              then meta\<lparr>ActiveBranch := HeaderGet resp ''Branch''\<rparr> else meta"
    obtain r2 w2 where S: "saveMetadata e db ?m w1 = (r2, w2)"
      by (cases "saveMetadata e db ?m w1")
    show ?thesis
    proof (cases r2)
      case (Some err2)
      then show ?thesis
        using assms Pair None S saveMetadata_error [of e db ?m w1 err2 w2]
        unfolding pullFinish_def Let_def by auto
    next
      case N2: None
      then show ?thesis
        using assms Pair None S pullReport_error [of e db fl resp body w2 err w']
        unfolding pullFinish_def Let_def by auto
    qed
  qed
qed

lemma pullStore_order:
  assumes "pullStore e db body w = (r, w')" and "db \<noteq> cachePath e db body"
    and "files w' db \<noteq> files w db"
  shows "files w' (cachePath e db body) = Some body \<and> (\<exists>n. files w' db = Some (take n body))"
proof -
  have whole: "\<exists>n. body = take n body"
    by (rule exI [of _ "length body"]) simp
  show ?thesis
    using assms whole unfolding pullStore_def Let_def cachePath_def
    by (auto simp: WriteFile_def MkdirAllCache_def
             split: if_splits prod.splits option.splits writeOutcome.splits)
qed

lemma pullFetch_order:
  assumes "pullFetch e db fl w = (r, w')"
    and "db \<noteq> cachePath e db (Body (Remote e (pullRequest e db fl)))"
    and "files w' db \<noteq> files w db"
  shows "files w' (cachePath e db (Body (Remote e (pullRequest e db fl))))
           = Some (Body (Remote e (pullRequest e db fl))) \<and>
         (\<exists>n. files w' db = Some (take n (Body (Remote e (pullRequest e db fl)))))"
proof (cases "updateMetadata e db False w")
  case (Pair m w1)
  note u = updateMetadata_nosave_frame [OF Pair]
  show ?thesis
  proof (cases "pullDownload e db fl w1")
    case P2: (Pair d w2)
    note dd = pullDownload_frame [OF P2]
    show ?thesis
    proof (cases d)
      case (Inl err)
      then have "files w' = files w" using assms(1) Pair P2 u dd
        unfolding pullFetch_def by (auto split: sum.splits if_splits)
      then show ?thesis using assms(3) by simp
    next
      case (Inr rb)
      obtain resp body where rb: "rb = (resp, body)" by (cases rb)
      have bd: "body = Body (Remote e (pullRequest e db fl))"
        using pullDownload_body [of e db fl w1 resp body w2] P2 Inr rb by simp
      obtain r3 w3 where S: "pullStore e db body w2 = (r3, w3)" by (cases "pullStore e db body w2")
      have fw: "files w2 = files w" using u dd by simp
      have "w' = w3 \<or> files w' = files w"
        using assms(1) Pair P2 Inr rb S u
        unfolding pullFetch_def by (auto split: sum.splits if_splits option.splits)
      then have w3: "w' = w3" using assms(3) by auto
      show ?thesis
        using pullStore_order [OF S] assms(2,3) bd fw w3 by simp
    qed
  qed
qed

text \<open>
  C4. In every run of pull the metadata store is written only after the downloaded
  bytes are in the cache and in the working copy: whenever a run has touched the store
  (the visible records or the temporary ones), and whenever it has stopped between the
  writes of the content and the saving of the metadata (the date of the header does not
  parse, or setting the modification time fails), both files hold the whole body. In
  the runs that stop there, the store is as it was before the run: stale, and whole.
\<close>

theorem pull_metadata_after_content:
  assumes "pullCmd e args fl w = (r, w')"
  shows "(metaStore w' \<noteq> metaStore w \<or> metaTemp w' \<noteq> metaTemp w \<or>
          (\<exists>c. r = Inl (TimeParseError c)) \<or> (\<exists>p. r = Inl (OSError ChtimesCall p)) \<longrightarrow>
            (\<exists>db. args = [db] \<and>
               (let body = Body (Remote e (pullRequest e db fl))
                in files w' (Join e [''.dio'', db, ''db'', EncodeToString (Sum256 e body)])
                     = Some body \<and>
                   files w' db = Some body))) \<and>
         ((\<exists>c. r = Inl (TimeParseError c)) \<or> (\<exists>p. r = Inl (OSError ChtimesCall p)) \<longrightarrow>
            metaStore w' = metaStore w \<and> metaTemp w' = metaTemp w)"
proof (cases "length args = 1 \<and> \<not> (pullCmdBranch fl \<noteq> [] \<and> pullCmdCommit fl \<noteq> [])")
  case False
  then have "length args = 0 \<or> length args > 1 \<or>
      (pullCmdBranch fl \<noteq> [] \<and> pullCmdCommit fl \<noteq> [])"
    by (cases args) auto
  then have "w' = w \<and> r \<in> {Inl NoDatabaseSpecified, Inl OnlyOneDatabase, Inl BranchAndCommitGiven}"
    using assms unfolding pullCmd_def by (auto split: if_splits)
  then show ?thesis by auto
next
  case True
  then obtain db where args: "args = [db]" by (cases args) auto
  let ?body = "Body (Remote e (pullRequest e db fl))"
  let ?cp = "cachePath e db ?body"
  obtain r1 w1 where F: "pullFetch e db fl w = (r1, w1)" by (cases "pullFetch e db fl w")
  note ff = pullFetch_frame [OF F]
  show ?thesis
  proof (cases r1)
    case (Inl err)
    then have "r = Inl err \<and> w' = w1" using assms True args F unfolding pullCmd_def by simp
    then show ?thesis using ff pullFetch_error [of e db fl w err w1] F Inl by auto
  next
    case (Inr x)
    obtain meta resp body where x: "x = (meta, resp, body)" by (cases x)
    have F': "pullFetch e db fl w = (Inr (meta, resp, body), w1)" using F Inr x by simp
    note ok = pullFetch_ok [OF F']
    have G: "pullFinish e db fl meta resp body w1 = (r, w')"
      using assms True args F' unfolding pullCmd_def by simp
    note g = pullFinish_files [OF G]
    have content: "files w' ?cp = Some ?body \<and> files w' db = Some ?body"
      using ok g by simp
    have stale: "metaStore w' = metaStore w \<and> metaTemp w' = metaTemp w"
      if "(\<exists>c. r = Inl (TimeParseError c)) \<or> (\<exists>p. r = Inl (OSError ChtimesCall p))"
    proof -
      from that obtain err where r: "r = Inl err" and
        k: "(\<exists>c. err = TimeParseError c) \<or> (\<exists>p. err = OSError ChtimesCall p)" by auto
      from pullFinish_stopped [OF G [unfolded r] k] ff show ?thesis by simp
    qed
    show ?thesis using args content stale unfolding cachePath_def Let_def by auto
  qed
qed

theorem pull_metadata_after_content_witness:
  "metaStore (snd (pullCmd sampleEnv [''sales.db''] pullMaster emptyWorld)) \<noteq> metaStore emptyWorld \<and>
   files (snd (pullCmd sampleEnv [''sales.db''] pullMaster emptyWorld)) ''.dio/sales.db/db/5351''
     = Some ''SQLite'' \<and>
   files (snd (pullCmd sampleEnv [''sales.db''] pullMaster emptyWorld)) ''sales.db'' = Some ''SQLite'' \<and>
   fst (pullCmd badDateEnv [''sales.db''] pullMaster emptyWorld) = Inl (TimeParseError ''yesterday'') \<and>
   metaStore (snd (pullCmd badDateEnv [''sales.db''] pullMaster emptyWorld)) = metaStore emptyWorld \<and>
   files (snd (pullCmd badDateEnv [''sales.db''] pullMaster emptyWorld)) ''sales.db'' = Some ''SQLite''"
proof -
  let ?good = "pullCmd sampleEnv [''sales.db''] pullMaster emptyWorld"
  let ?bad = "pullCmd badDateEnv [''sales.db''] pullMaster emptyWorld"
  have saved: "metaStore (snd ?good) ''sales.db'' = Some ''branch:master''"
    by code_simp
  have none: "metaStore emptyWorld ''sales.db'' = None"
    by code_simp
  have changed: "metaStore (snd ?good) \<noteq> metaStore emptyWorld"
    using saved none by (metis option.distinct(1))
  have stopped: "fst ?bad = Inl (TimeParseError ''yesterday'')"
    by code_simp
  have p1: "Join sampleEnv [''.dio'', ''sales.db'', ''db'',
      EncodeToString (Sum256 sampleEnv (Body (Remote sampleEnv
        (pullRequest sampleEnv ''sales.db'' pullMaster))))] = ''.dio/sales.db/db/5351''"
    by code_simp
  have b1: "Body (Remote sampleEnv (pullRequest sampleEnv ''sales.db'' pullMaster)) = ''SQLite''"
    by code_simp
  have b2: "Body (Remote badDateEnv (pullRequest badDateEnv ''sales.db'' pullMaster)) = ''SQLite''"
    by code_simp
  note good = pull_metadata_after_content [OF prod.collapse [symmetric, of ?good]]
  note bad = pull_metadata_after_content [OF prod.collapse [symmetric, of ?bad]]
  have g: "files (snd ?good) ''.dio/sales.db/db/5351'' = Some ''SQLite'' \<and>
           files (snd ?good) ''sales.db'' = Some ''SQLite''"
    using good changed p1 b1 by (simp add: Let_def)
  have b: "metaStore (snd ?bad) = metaStore emptyWorld \<and>
           files (snd ?bad) ''sales.db'' = Some ''SQLite''"
    using bad stopped b2 by (simp add: Let_def)
  show ?thesis using changed g stopped b by simp
qed

text \<open>
  C7, as the specification states it, fails: pull writes the cache entry, then the
  working copy, and undoes nothing. When the disk fills up three bytes into the working
  copy, the run fails and leaves a working copy of three bytes beside a cache entry
  that holds the whole download under its digest.
\<close>

theorem pull_partial_working_copy_counterexample:
  "fst (pullCmd diskFullEnv [''sales.db''] pullMaster emptyWorld)
     = Inl (OSError WriteFileCall ''sales.db'') \<and>
   Body (Remote diskFullEnv (pullRequest diskFullEnv ''sales.db'' pullMaster)) = ''SQLite'' \<and>
   files (snd (pullCmd diskFullEnv [''sales.db''] pullMaster emptyWorld)) ''sales.db''
     = Some ''SQL'' \<and>
   EncodeToString (Sum256 diskFullEnv ''SQLite'') = ''5351'' \<and>
   files (snd (pullCmd diskFullEnv [''sales.db''] pullMaster emptyWorld))
     ''.dio/sales.db/db/5351'' = Some ''SQLite''"
  by code_simp

text \<open>
  C7, amended: pull writes the cache entry first. In every run, failed or not, in which
  the working copy is not what it was before (and is not itself the path of the cache
  entry), the cache entry holds the whole body, and the working copy holds the first
  bytes of the body, some or all.
\<close>

theorem pull_cache_before_working_copy:
  assumes "pullCmd e [db] fl w = (r, w')"
    and "db \<noteq> Join e [''.dio'', db, ''db'',
                  EncodeToString (Sum256 e (Body (Remote e (pullRequest e db fl))))]"
    and "files w' db \<noteq> files w db"
  shows "files w' (Join e [''.dio'', db, ''db'',
                     EncodeToString (Sum256 e (Body (Remote e (pullRequest e db fl))))])
           = Some (Body (Remote e (pullRequest e db fl))) \<and>
         (\<exists>n. files w' db = Some (take n (Body (Remote e (pullRequest e db fl)))))"
proof -
  have sel: "\<not> (pullCmdBranch fl \<noteq> [] \<and> pullCmdCommit fl \<noteq> [])"
    using assms(1,3) unfolding pullCmd_def by (auto split: if_splits)
  obtain r1 w1 where F: "pullFetch e db fl w = (r1, w1)" by (cases "pullFetch e db fl w")
  have "files w' = files w1"
  proof (cases r1)
    case (Inl err)
    then show ?thesis using assms(1) sel F unfolding pullCmd_def by simp
  next
    case (Inr x)
    obtain meta resp body where x: "x = (meta, resp, body)" by (cases x)
    have "pullFinish e db fl meta resp body w1 = (r, w')"
      using assms(1) sel F Inr x unfolding pullCmd_def by simp
    then show ?thesis using pullFinish_files by blast
  qed
  then show ?thesis
    using pullFetch_order [OF F] assms(2,3) unfolding cachePath_def by simp
qed

theorem pull_cache_before_working_copy_witness:
  "files (snd (pullCmd diskFullEnv [''sales.db''] pullMaster emptyWorld)) ''sales.db''
     \<noteq> files emptyWorld ''sales.db'' \<and>
   files (snd (pullCmd diskFullEnv [''sales.db''] pullMaster emptyWorld))
     ''.dio/sales.db/db/5351'' = Some ''SQLite''"
proof -
  let ?run = "pullCmd diskFullEnv [''sales.db''] pullMaster emptyWorld"
  have p: "Join diskFullEnv [''.dio'', ''sales.db'', ''db'',
      EncodeToString (Sum256 diskFullEnv (Body (Remote diskFullEnv
        (pullRequest diskFullEnv ''sales.db'' pullMaster))))] = ''.dio/sales.db/db/5351''"
    by code_simp
  have b: "Body (Remote diskFullEnv (pullRequest diskFullEnv ''sales.db'' pullMaster)) = ''SQLite''"
    by code_simp
  have distinct: "''sales.db'' \<noteq> Join diskFullEnv [''.dio'', ''sales.db'', ''db'',
      EncodeToString (Sum256 diskFullEnv (Body (Remote diskFullEnv
        (pullRequest diskFullEnv ''sales.db'' pullMaster))))]"
    unfolding p by simp
  have partial: "files (snd ?run) ''sales.db'' = Some ''SQL''"
    by code_simp
  have before: "files emptyWorld ''sales.db'' = None"
    by code_simp
  have touched: "files (snd ?run) ''sales.db'' \<noteq> files emptyWorld ''sales.db''"
    using partial before by simp
  from pull_cache_before_working_copy [OF prod.collapse [symmetric, of ?run] distinct touched]
  show ?thesis using touched p b by simp
qed




subsection \<open>What push sends\<close>

lemma loadPointer_ok:
  "loadPointer e w p flag = Inr v \<Longrightarrow> v = (case files w p of None \<Rightarrow> flag | Some d \<Rightarrow> d)"
  unfolding loadPointer_def ReadFile_def pathExists_def
  by (auto split: if_splits option.splits)

lemma pushPrepare_ok:
  assumes "pushPrepare e args fl w = Inr (file, fl')"
  shows "args = [file] \<and>
     pushCmdBranch fl' =
       (case files w (Join e [''.dio'', file, ''branch'']) of
          None \<Rightarrow> pushCmdBranch fl | Some b \<Rightarrow> b) \<and>
     pushCmdCommit fl' =
       (case files w (Join e [''.dio'', file, ''commit'']) of
          None \<Rightarrow> pushCmdCommit fl | Some c \<Rightarrow> c)"
proof -
  from assms have len: "length args = 1"
    unfolding pushPrepare_def by (cases args) (auto split: if_splits)
  then obtain f where args: "args = [f]" by (cases args) auto
  let ?fl1 = "if pushCmdDB fl = [] then fl\<lparr>pushCmdDB := Base e f\<rparr> else fl"
  from assms args obtain b c where
    B: "loadPointer e w (Join e [''.dio'', f, ''branch'']) (pushCmdBranch ?fl1) = Inr b" and
    C: "loadPointer e w (Join e [''.dio'', f, ''commit'']) (pushCmdCommit ?fl1) = Inr c" and
    R: "file = f" "fl' = ?fl1\<lparr>pushCmdBranch := b, pushCmdCommit := c\<rparr>"
    unfolding pushPrepare_def Let_def
    by (auto split: if_splits sum.splits)
  show ?thesis
    using args R loadPointer_ok [OF B] loadPointer_ok [OF C] by (auto split: option.splits)
qed

lemma updateMetadata_frame:
  "updateMetadata e db save w = (r, w') \<Longrightarrow>
     files w' = files w \<and> (\<exists>rest. netlog w' = netlog w @ rest)"
  unfolding updateMetadata_def Let_def
  by (auto split: option.splits if_splits prod.splits dest!: saveMetadata_frame)

lemma pushFinish_netlog:
  "pushFinish e file fl sz body w = (r, w') \<Longrightarrow> \<exists>rest. netlog w' = netlog w @ rest"
  unfolding pushFinish_def
  by (auto split: option.splits prod.splits sum.splits
           dest!: updateMetadata_frame WriteFile_frame)

lemma pushSend_netlog:
  assumes "pushSend e file fl w = (r, w')"
  shows "\<exists>rest. netlog w' = netlog w @ HttpCall (pushRequest e file fl w) # rest"
proof -
  let ?req = "pushRequest e file fl w"
  let ?w1 = "w\<lparr>netlog := netlog w @ [HttpCall ?req]\<rparr>"
  have "w' = ?w1 \<or> pushFinish e file fl (fileSize w file) (Body (Remote e ?req)) ?w1 = (r, w')"
    using assms unfolding pushSend_def Let_def by (auto split: if_splits option.splits)
  then show ?thesis
  proof
    assume "w' = ?w1" then show ?thesis by simp
  next
    assume "pushFinish e file fl (fileSize w file) (Body (Remote e ?req)) ?w1 = (r, w')"
    from pushFinish_netlog [OF this] show ?thesis by auto
  qed
qed

lemma pushFinish_ok:
  assumes "pushFinish e file fl sz body w = (Inr u, w')"
  shows "\<exists>parsed. Unmarshal e body = Some parsed \<and>
     files w' (Join e [''.dio'', file, ''commit'']) = Some (commitId parsed)"
proof -
  from assms obtain parsed meta w1 w2 where
    P: "Unmarshal e body = Some parsed" and
    U: "updateMetadata e file True w = (Inr meta, w1)" and
    W: "WriteFile e (Join e [''.dio'', file, ''commit'']) (commitId parsed) w1 = (None, w2)" and
    R: "files w' = files w2"
    unfolding pushFinish_def
    by (auto split: option.splits prod.splits sum.splits)
  show ?thesis using P WriteFile_ok [OF W] R by simp
qed

text \<open>
  C5, as the specification states it, fails: the pointers saved on disk replace the
  flags. With \<open>--branch feature --commit c0\<close> on the command line and the pointers
  \<open>master\<close> and \<open>c1\<close> saved by an earlier run, the upload is sent with \<open>branch=master\<close> and
  \<open>commit=c1\<close>.
\<close>

theorem push_explicit_selector_counterexample:
  "pushCmdBranch (pushExplicit False) = ''feature'' \<and>
   pushCmdCommit (pushExplicit False) = ''c0'' \<and>
   files trackedWorld ''.dio/sales.db/branch'' = Some ''master'' \<and>
   files trackedWorld ''.dio/sales.db/commit'' = Some ''c1'' \<and>
   hd (netlog (snd (pushCmd sampleEnv [''sales.db''] (pushExplicit False) trackedWorld))) =
     HttpCall \<lparr>Method = POST, URL = ''https://dbhub.io/ada/sales.db'',
               Queries = [''branch=master'', ''commitmsg=second'',
                          ''lastmodified=1970-01-01T00:00:00Z'', ''commit=c1'',
                          ''public=false'', ''force=false''],
               Upload = Some (''sales.db'', Some ''SQLite'')\<rparr>"
  by code_simp

text \<open>
  C5, amended: in every push that passes its checks, the branch and the commit of the
  upload are the saved pointers wherever a pointer file is there, and the values of the
  flags (given or default) only where it is not; the first call the run makes to the
  server is the upload built from these values, which carries them as its \<open>branch=\<close>
  and \<open>commit=\<close> parameters.
\<close>

theorem push_saved_pointers_replace_flags:
  assumes "pushPrepare e args fl w = Inr (file, fl')"
  shows "pushCmdBranch fl' =
       (case files w (Join e [''.dio'', file, ''branch'']) of
          None \<Rightarrow> pushCmdBranch fl | Some b \<Rightarrow> b) \<and>
     pushCmdCommit fl' =
       (case files w (Join e [''.dio'', file, ''commit'']) of
          None \<Rightarrow> pushCmdCommit fl | Some c \<Rightarrow> c) \<and>
     (\<exists>rest. netlog (snd (pushCmd e args fl w)) =
               netlog w @ HttpCall (pushRequest e file fl' w) # rest) \<and>
     Queries (pushRequest e file fl' w) ! 0 = ''branch='' @ QueryEscape e (pushCmdBranch fl') \<and>
     Queries (pushRequest e file fl' w) ! 3 = ''commit='' @ pushCmdCommit fl'"
proof -
  have run: "pushCmd e args fl w = pushSend e file fl' w"
    using assms unfolding pushCmd_def by simp
  have "pushSend e file fl' w = (fst (pushCmd e args fl w), snd (pushCmd e args fl w))"
    using run by simp
  from pushSend_netlog [OF this] pushPrepare_ok [OF assms]
  show ?thesis by (simp add: pushRequest_def)
qed

theorem push_saved_pointers_replace_flags_witness:
  "pushPrepare sampleEnv [''sales.db''] (pushExplicit False) trackedWorld =
     Inr (''sales.db'', (pushExplicit False)\<lparr>pushCmdBranch := ''master'', pushCmdCommit := ''c1'',
                                             pushCmdDB := ''sales.db''\<rparr>) \<and>
   files trackedWorld (Join sampleEnv [''.dio'', ''sales.db'', ''commit'']) = Some ''c1'' \<and>
   Queries (pushRequest sampleEnv ''sales.db''
      ((pushExplicit False)\<lparr>pushCmdBranch := ''master'', pushCmdCommit := ''c1'',
                             pushCmdDB := ''sales.db''\<rparr>) trackedWorld) ! 3 = ''commit=c1''"
proof -
  let ?fl' = "(pushExplicit False)\<lparr>pushCmdBranch := ''master'', pushCmdCommit := ''c1'',
                                     pushCmdDB := ''sales.db''\<rparr>"
  have prep: "pushPrepare sampleEnv [''sales.db''] (pushExplicit False) trackedWorld =
     Inr (''sales.db'', ?fl')"
    by code_simp
  have saved: "files trackedWorld (Join sampleEnv [''.dio'', ''sales.db'', ''commit'']) = Some ''c1''"
    by code_simp
  have c: "pushCmdCommit ?fl' = ''c1''" by simp
  note t = push_saved_pointers_replace_flags [OF prep]
  have "Queries (pushRequest sampleEnv ''sales.db'' ?fl' trackedWorld) ! 3
          = ''commit='' @ pushCmdCommit ?fl'"
    using t by blast
  then have q: "Queries (pushRequest sampleEnv ''sales.db'' ?fl' trackedWorld) ! 3 = ''commit=c1''"
    unfolding c by simp
  show ?thesis
    by (intro conjI) (rule prep, rule saved, rule q)
qed

subsection \<open>A refused upload\<close>

text \<open>
  C6, as the specification states it, fails: push has one error for every status other
  than 201. A refusal with status 409, without the force flag, gives the same
  \<open>Upload failed\<close> error as any other status, a \<open>RemoteError\<close> in the taxonomy of the
  specification and no \<open>ConflictError\<close>.
\<close>

theorem push_conflict_counterexample:
  "pushCmdForce (pushExplicit False) = False \<and>
   Resp (Remote conflictEnv
          (pushRequest conflictEnv ''sales.db'' (pushExplicit False) trackedWorld))
     = Some \<lparr>StatusCode = 409, Status = ''409 Conflict'', Header = []\<rparr> \<and>
   fst (pushCmd conflictEnv [''sales.db''] (pushExplicit False) trackedWorld)
     = Inl (UploadFailed 409 ''409 Conflict'') \<and>
   kindOf (UploadFailed 409 ''409 Conflict'') = Some RemoteError \<and>
   kindOf (UploadFailed 409 ''409 Conflict'') \<noteq> Some ConflictError"
  by code_simp

text \<open>
  C6, amended: in every push that passes its checks and gets a response whose status is
  not 201, whatever the reason of the refusal and whatever the force flag, the command
  returns the \<open>Upload failed\<close> error carrying the status code and text, a \<open>RemoteError\<close>;
  it has made the one call to the server and changed nothing else.
\<close>

theorem push_rejection_generic_error:
  assumes "pushPrepare e args fl w = Inr (file, fl')"
    and "Errs (Remote e (pushRequest e file fl' w)) = []"
    and "Resp (Remote e (pushRequest e file fl' w)) = Some resp"
    and "StatusCode resp \<noteq> 201"
  shows "pushCmd e args fl w =
           (Inl (UploadFailed (StatusCode resp) (Status resp)),
            w\<lparr>netlog := netlog w @ [HttpCall (pushRequest e file fl' w)]\<rparr>) \<and>
         kindOf (UploadFailed (StatusCode resp) (Status resp)) = Some RemoteError"
  using assms unfolding pushCmd_def pushSend_def Let_def by simp

theorem push_rejection_generic_error_witness:
  "pushPrepare conflictEnv [''sales.db''] (pushExplicit True) untrackedWorld =
     Inr (''sales.db'', (pushExplicit True)\<lparr>pushCmdDB := ''sales.db''\<rparr>) \<and>
   fst (pushCmd conflictEnv [''sales.db''] (pushExplicit True) untrackedWorld)
     = Inl (UploadFailed 409 ''409 Conflict'')"
proof -
  let ?fl' = "(pushExplicit True)\<lparr>pushCmdDB := ''sales.db''\<rparr>"
  let ?resp = "\<lparr>StatusCode = 409, Status = ''409 Conflict'', Header = []\<rparr>"
  have prep: "pushPrepare conflictEnv [''sales.db''] (pushExplicit True) untrackedWorld =
     Inr (''sales.db'', ?fl')"
    by code_simp
  have errs: "Errs (Remote conflictEnv (pushRequest conflictEnv ''sales.db'' ?fl' untrackedWorld)) = []"
    by code_simp
  have resp: "Resp (Remote conflictEnv (pushRequest conflictEnv ''sales.db'' ?fl' untrackedWorld))
      = Some ?resp"
    by code_simp
  have status: "StatusCode ?resp \<noteq> 201" by simp
  from push_rejection_generic_error [OF prep errs resp status]
  show ?thesis using prep by simp
qed

subsection \<open>The commit pointer after a push\<close>

text \<open>
  C9. Every successful push has passed its checks and sent one upload; a response, if
  there is one, had status 201; its body was decoded; and if the decoded body holds a
  \<open>commit_id\<close>, the commit pointer file \<open>.dio/<file>/commit\<close> holds exactly that value
  afterwards.
\<close>

theorem push_commit_pointer:
  assumes "pushCmd e args fl w = (Inr u, w')"
  shows "\<exists>file fl' parsed.
     args = [file] \<and> pushPrepare e args fl w = Inr (file, fl') \<and>
     (\<forall>resp. Resp (Remote e (pushRequest e file fl' w)) = Some resp \<longrightarrow> StatusCode resp = 201) \<and>
     Unmarshal e (Body (Remote e (pushRequest e file fl' w))) = Some parsed \<and>
     (\<forall>c. parsed ''commit_id'' = Some c \<longrightarrow>
          files w' (Join e [''.dio'', file, ''commit'']) = Some c)"
proof -
  from assms obtain f fl' where
    prep: "pushPrepare e args fl w = Inr (f, fl')" and
    send: "pushSend e f fl' w = (Inr u, w')"
    unfolding pushCmd_def by (auto split: sum.splits)
  let ?req = "pushRequest e f fl' w"
  let ?w1 = "w\<lparr>netlog := netlog w @ [HttpCall ?req]\<rparr>"
  from send have
    fin: "pushFinish e f fl' (fileSize w f) (Body (Remote e ?req)) ?w1 = (Inr u, w')" and
    st: "\<forall>resp. Resp (Remote e ?req) = Some resp \<longrightarrow> StatusCode resp = 201"
    unfolding pushSend_def Let_def by (auto split: if_splits option.splits)
  from pushFinish_ok [OF fin] obtain parsed where
    P: "Unmarshal e (Body (Remote e ?req)) = Some parsed" and
    F: "files w' (Join e [''.dio'', f, ''commit'']) = Some (commitId parsed)"
    by blast
  have "\<forall>c. parsed ''commit_id'' = Some c \<longrightarrow>
          files w' (Join e [''.dio'', f, ''commit'']) = Some c"
    using F by (simp add: commitId_def)
  then show ?thesis using pushPrepare_ok [OF prep] prep st P by blast
qed

theorem push_commit_pointer_witness:
  "fst (pushCmd sampleEnv [''sales.db''] (pushExplicit False) trackedWorld) = Inr () \<and>
   Resp (Remote sampleEnv (pushRequest sampleEnv ''sales.db''
      ((pushExplicit False)\<lparr>pushCmdBranch := ''master'', pushCmdCommit := ''c1'',
                             pushCmdDB := ''sales.db''\<rparr>) trackedWorld))
     = Some \<lparr>StatusCode = 201, Status = ''201 Created'', Header = []\<rparr> \<and>
   map_option (\<lambda>parsed. parsed ''commit_id'')
     (Unmarshal sampleEnv (Body (Remote sampleEnv (pushRequest sampleEnv ''sales.db''
        ((pushExplicit False)\<lparr>pushCmdBranch := ''master'', pushCmdCommit := ''c1'',
                               pushCmdDB := ''sales.db''\<rparr>) trackedWorld))))
     = Some (Some ''abc123'') \<and>
   files (snd (pushCmd sampleEnv [''sales.db''] (pushExplicit False) trackedWorld))
     ''.dio/sales.db/commit'' = Some ''abc123''"
proof -
  let ?run = "pushCmd sampleEnv [''sales.db''] (pushExplicit False) trackedWorld"
  let ?fl' = "(pushExplicit False)\<lparr>pushCmdBranch := ''master'', pushCmdCommit := ''c1'',
                                     pushCmdDB := ''sales.db''\<rparr>"
  let ?req = "pushRequest sampleEnv ''sales.db'' ?fl' trackedWorld"
  have ok: "?run = (Inr (), snd ?run)"
    by (rule prod_eqI) (simp, code_simp, simp)
  have prep: "pushPrepare sampleEnv [''sales.db''] (pushExplicit False) trackedWorld =
     Inr (''sales.db'', ?fl')"
    by code_simp
  have resp: "Resp (Remote sampleEnv ?req)
      = Some \<lparr>StatusCode = 201, Status = ''201 Created'', Header = []\<rparr>"
    by code_simp
  have id: "map_option (\<lambda>parsed. parsed ''commit_id'')
              (Unmarshal sampleEnv (Body (Remote sampleEnv ?req))) = Some (Some ''abc123'')"
    by code_simp
  have p: "Join sampleEnv [''.dio'', ''sales.db'', ''commit''] = ''.dio/sales.db/commit''"
    by code_simp
  from push_commit_pointer [OF ok] obtain f fl' parsed where
    a: "[''sales.db''] = [f]" and
    b: "pushPrepare sampleEnv [''sales.db''] (pushExplicit False) trackedWorld = Inr (f, fl')" and
    c: "Unmarshal sampleEnv (Body (Remote sampleEnv
          (pushRequest sampleEnv f fl' trackedWorld))) = Some parsed" and
    d: "\<forall>c. parsed ''commit_id'' = Some c \<longrightarrow>
          files (snd ?run) (Join sampleEnv [''.dio'', f, ''commit'']) = Some c"
    by blast
  have ff: "f = ''sales.db''" "fl' = ?fl'" using a b prep by simp_all
  have "parsed ''commit_id'' = Some ''abc123''" using c id ff by simp
  then have ptr: "files (snd ?run) ''.dio/sales.db/commit'' = Some ''abc123''"
    using d ff p by simp
  have succ: "fst ?run = Inr ()"
    by (subst ok) simp
  show ?thesis
    by (intro conjI) (rule succ, rule resp, rule id, rule ptr)
qed

text \<open>
  C10, as the specification states it, fails: a body can be well-formed JSON without
  the key and yet not decode, and the steps after the decoding can fail. An upload
  answered with status 201 and the array \<open>[1,2]\<close> ends with the error of
  \<open>json.Unmarshal\<close>, a \<open>ProtocolError\<close>; one answered with status 201 and the object \<open>{}\<close>,
  when the refresh of the metadata fails, ends with that error; both leave the commit
  pointer as it was.
\<close>

theorem push_missing_commit_id_counterexample:
  "Resp (Remote arrayBodyEnv (pushRequest arrayBodyEnv ''sales.db''
      ((pushExplicit False)\<lparr>pushCmdBranch := ''master'', pushCmdCommit := ''c1'',
                             pushCmdDB := ''sales.db''\<rparr>) trackedWorld))
     = Some \<lparr>StatusCode = 201, Status = ''201 Created'', Header = []\<rparr> \<and>
   Body (Remote arrayBodyEnv (pushRequest arrayBodyEnv ''sales.db''
      ((pushExplicit False)\<lparr>pushCmdBranch := ''master'', pushCmdCommit := ''c1'',
                             pushCmdDB := ''sales.db''\<rparr>) trackedWorld)) = ''[1,2]'' \<and>
   fst (pushCmd arrayBodyEnv [''sales.db''] (pushExplicit False) trackedWorld)
     = Inl (JSONError ''[1,2]'') \<and>
   kindOf (JSONError ''[1,2]'') = Some ProtocolError \<and>
   files (snd (pushCmd arrayBodyEnv [''sales.db''] (pushExplicit False) trackedWorld))
     ''.dio/sales.db/commit'' = Some ''c1'' \<and>
   Body (Remote noMetadataEnv (pushRequest noMetadataEnv ''sales.db''
      ((pushExplicit False)\<lparr>pushCmdBranch := ''master'', pushCmdCommit := ''c1'',
                             pushCmdDB := ''sales.db''\<rparr>) trackedWorld)) = ''{}'' \<and>
   fst (pushCmd noMetadataEnv [''sales.db''] (pushExplicit False) trackedWorld)
     = Inl (MetadataFetchError ''sales.db'') \<and>
   files (snd (pushCmd noMetadataEnv [''sales.db''] (pushExplicit False) trackedWorld))
     ''.dio/sales.db/commit'' = Some ''c1''"
  by code_simp

text \<open>
  C10, amended: when a push passes its checks, gets status 201 with a body that
  \<open>json.Unmarshal\<close> decodes into a map of strings without the key \<open>commit_id\<close>, and the
  refresh of the metadata and the write of the pointer file succeed, the command
  succeeds and the commit pointer file holds the empty string afterwards.
\<close>

theorem push_missing_commit_id:
  assumes "pushPrepare e args fl w = Inr (file, fl')"
    and "Errs (Remote e (pushRequest e file fl' w)) = []"
    and "Resp (Remote e (pushRequest e file fl' w)) = Some resp"
    and "StatusCode resp = 201"
    and "Unmarshal e (Body (Remote e (pushRequest e file fl' w))) = Some parsed"
    and "parsed ''commit_id'' = None"
    and "fst (updateMetadata e file True
                (w\<lparr>netlog := netlog w @ [HttpCall (pushRequest e file fl' w)]\<rparr>)) = Inr meta"
    and "WriteOutcome e (Join e [''.dio'', file, ''commit'']) = WriteOK"
  shows "fst (pushCmd e args fl w) = Inr () \<and>
         files (snd (pushCmd e args fl w)) (Join e [''.dio'', file, ''commit'']) = Some []"
proof -
  let ?req = "pushRequest e file fl' w"
  let ?w1 = "w\<lparr>netlog := netlog w @ [HttpCall ?req]\<rparr>"
  obtain w2 where U: "updateMetadata e file True ?w1 = (Inr meta, w2)"
    using assms(7) by (cases "updateMetadata e file True ?w1") simp
  have run: "pushCmd e args fl w =
      pushFinish e file fl' (fileSize w file) (Body (Remote e ?req)) ?w1"
    using assms(1-4) unfolding pushCmd_def pushSend_def Let_def by simp
  show ?thesis
    unfolding run pushFinish_def
    using assms(5,6,8) U by (simp add: WriteFile_def commitId_def)
qed

theorem push_missing_commit_id_witness:
  "files trackedWorld ''.dio/sales.db/commit'' = Some ''c1'' \<and>
   Body (Remote noCommitIdEnv (pushRequest noCommitIdEnv ''sales.db''
      ((pushExplicit False)\<lparr>pushCmdBranch := ''master'', pushCmdCommit := ''c1'',
                             pushCmdDB := ''sales.db''\<rparr>) trackedWorld)) = ''{}'' \<and>
   fst (pushCmd noCommitIdEnv [''sales.db''] (pushExplicit False) trackedWorld) = Inr () \<and>
   files (snd (pushCmd noCommitIdEnv [''sales.db''] (pushExplicit False) trackedWorld))
     ''.dio/sales.db/commit'' = Some []"
proof -
  let ?fl' = "(pushExplicit False)\<lparr>pushCmdBranch := ''master'', pushCmdCommit := ''c1'',
                                     pushCmdDB := ''sales.db''\<rparr>"
  let ?req = "pushRequest noCommitIdEnv ''sales.db'' ?fl' trackedWorld"
  have before: "files trackedWorld ''.dio/sales.db/commit'' = Some ''c1''"
    by code_simp
  have prep: "pushPrepare noCommitIdEnv [''sales.db''] (pushExplicit False) trackedWorld =
     Inr (''sales.db'', ?fl')"
    by code_simp
  have errs: "Errs (Remote noCommitIdEnv ?req) = []"
    by code_simp
  have resp: "Resp (Remote noCommitIdEnv ?req)
      = Some \<lparr>StatusCode = 201, Status = ''201 Created'', Header = []\<rparr>"
    by code_simp
  have status: "StatusCode \<lparr>StatusCode = 201, Status = ''201 Created'', Header = []\<rparr> = 201"
    by simp
  have body: "Body (Remote noCommitIdEnv ?req) = ''{}''"
    by code_simp
  have parsed: "Unmarshal noCommitIdEnv (Body (Remote noCommitIdEnv ?req)) = Some Map.empty"
    unfolding body by (simp add: noCommitIdEnv_def sampleEnv_def)
  have nokey: "(Map.empty :: string \<rightharpoonup> string) ''commit_id'' = None"
    by simp
  have meta: "fst (updateMetadata noCommitIdEnv ''sales.db'' True
      (trackedWorld\<lparr>netlog := netlog trackedWorld @ [HttpCall ?req]\<rparr>)) = Inr sampleMeta"
    by code_simp
  have wr: "WriteOutcome noCommitIdEnv (Join noCommitIdEnv [''.dio'', ''sales.db'', ''commit''])
      = WriteOK"
    by code_simp
  have p: "Join noCommitIdEnv [''.dio'', ''sales.db'', ''commit''] = ''.dio/sales.db/commit''"
    by code_simp
  note t = push_missing_commit_id [OF prep errs resp status parsed nokey meta wr, unfolded p]
  show ?thesis
    by (intro conjI) (rule before, rule body, rule t [THEN conjunct1], rule t [THEN conjunct2])
qed

end
